theory Spec2Isabelle
  imports Main "HOL-Library.Sublist"
begin

section \<open>JavaScript values used by the services\<close>

text \<open>
  A JavaScript string is a sequence of UTF-16 code units; it is modelled as the list of
  its code units. \<open>js\<close> writes an ASCII literal of the source as such a list; letters
  outside ASCII are given by their code unit (for instance 269 for the Czech c with caron).
  An \<open>Error\<close> that is thrown is modelled by its message, on the left of a sum.
\<close>

type_synonym jsstring = "nat list"

definition js :: "string \<Rightarrow> jsstring" where
  "js s = map of_char s"

section \<open>CacheService (cache.ts)\<close>

text \<open>
  The table \<open>menu_cache\<close> created by \<open>initializeDatabase\<close>: one record per row, the columns
  as declared there (\<open>id\<close>, \<open>url\<close>, \<open>date\<close>, \<open>data\<close>, \<open>created_at\<close>, \<open>expires_at\<close>). The
  database is the list of rows in insertion order together with the counter behind
  \<open>AUTOINCREMENT\<close>.
\<close>

record cache_row =
  row_id :: nat
  row_url :: jsstring
  row_date :: jsstring
  row_data :: jsstring
  created_at :: int
  expires_at :: int

record database =
  menu_cache :: "cache_row list"
  seq :: nat

definition empty_database :: database where
  "empty_database = \<lparr>menu_cache = [], seq = 0\<rparr>"

text \<open>
  What the service takes from the JavaScript runtime: \<open>JSON.stringify\<close> and \<open>JSON.parse\<close>
  on the payload type (\<open>None\<close> when \<open>JSON.parse\<close> throws), \<open>new Date(s)\<close> in the local
  time zone of the process (\<open>None\<close> for an invalid date, whose time value is NaN),
  \<open>d.setDate(d.getDate() + 1)\<close> on a time value, and \<open>d.getDay()\<close> (0 is Sunday).
\<close>

record 'm js_runtime =
  JSON_stringify :: "'m \<Rightarrow> jsstring"
  JSON_parse :: "jsstring \<Rightarrow> 'm option"
  Date_parse_local :: "jsstring \<Rightarrow> int option"
  Date_add_local_day :: "int \<Rightarrow> int"
  Date_getDay :: "int \<Rightarrow> nat"

text \<open>The SQL statements of the service, read on the table.\<close>

definition has_key :: "jsstring \<Rightarrow> jsstring \<Rightarrow> cache_row \<Rightarrow> bool" where
  "has_key u d r = (row_url r = u \<and> row_date r = d)"

definition rows_for :: "database \<Rightarrow> jsstring \<Rightarrow> jsstring \<Rightarrow> cache_row list" where
  "rows_for db u d = filter (has_key u d) (menu_cache db)"

text \<open>\<open>SELECT data, expires_at FROM menu_cache WHERE url = ? AND date = ?\<close>, first row.\<close>

definition sql_select :: "database \<Rightarrow> jsstring \<Rightarrow> jsstring \<Rightarrow> cache_row option" where
  "sql_select db u d = find (has_key u d) (menu_cache db)"

text \<open>
  \<open>INSERT OR REPLACE INTO menu_cache (url, date, data, created_at, expires_at)\<close> under
  \<open>UNIQUE(url, date)\<close>: the rows in conflict are removed and the new row is added with
  a fresh id.
\<close>

definition sql_insert_or_replace ::
  "database \<Rightarrow> jsstring \<Rightarrow> jsstring \<Rightarrow> jsstring \<Rightarrow> int \<Rightarrow> int \<Rightarrow> database" where
  "sql_insert_or_replace db u d s c e =
     \<lparr>menu_cache = filter (\<lambda>r. \<not> has_key u d r) (menu_cache db) @
        [\<lparr>row_id = Suc (seq db), row_url = u, row_date = d, row_data = s,
          created_at = c, expires_at = e\<rparr>],
      seq = Suc (seq db)\<rparr>"

text \<open>\<open>DELETE FROM menu_cache WHERE url = ? AND date = ?\<close>\<close>

definition sql_delete :: "database \<Rightarrow> jsstring \<Rightarrow> jsstring \<Rightarrow> database" where
  "sql_delete db u d = db\<lparr>menu_cache := filter (\<lambda>r. \<not> has_key u d r) (menu_cache db)\<rparr>"

text \<open>\<open>DELETE FROM menu_cache WHERE expires_at < ?\<close>\<close>

definition sql_delete_expired :: "database \<Rightarrow> int \<Rightarrow> database" where
  "sql_delete_expired db now = db\<lparr>menu_cache := filter (\<lambda>r. \<not> expires_at r < now) (menu_cache db)\<rparr>"

text \<open>
  \<open>getExpirationTimestamp\<close>: \<open>new Date(dateString + 'T00:00:00')\<close>, one day later,
  \<open>getTime()\<close>. \<open>None\<close> is NaN.
\<close>

definition getExpirationTimestamp :: "'m js_runtime \<Rightarrow> jsstring \<Rightarrow> int option" where
  "getExpirationTimestamp rt dateString =
     map_option (Date_add_local_day rt) (Date_parse_local rt (dateString @ js ''T00:00:00''))"

text \<open>
  The methods. For each statement SQLite executes, \<open>err\<close> says whether it reports an error
  to the callback; a statement that reports an error leaves the table as it was, and the
  callbacks of the source only log it. \<open>now\<close> is the value of \<open>Date.now()\<close>. In \<open>get\<close>, \<open>db\<close> is
  the table as the SELECT finds it, and the DELETE that \<open>get\<close> issues for an expired row is
  taken to run at once.
\<close>

definition CacheService_delete :: "database \<Rightarrow> bool \<Rightarrow> jsstring \<Rightarrow> jsstring \<Rightarrow> database" where
  "CacheService_delete db err u d = (if err then db else sql_delete db u d)"

definition CacheService_get ::
  "'m js_runtime \<Rightarrow> database \<Rightarrow> bool \<Rightarrow> bool \<Rightarrow> int \<Rightarrow> jsstring \<Rightarrow> jsstring \<Rightarrow> database \<times> 'm option" where
  "CacheService_get rt db select_err delete_err now u d =
     (if select_err then (db, None)
      else case sql_select db u d of
        None \<Rightarrow> (db, None)
      | Some row \<Rightarrow>
          if now \<ge> expires_at row then (CacheService_delete db delete_err u d, None)
          else (db, JSON_parse rt (row_data row)))"

text \<open>
  \<open>set\<close> does not touch the table. It computes the expiry and the serialised payload, hands
  an \<open>INSERT OR REPLACE\<close> with these values to \<open>db.run\<close> and returns; the connection is never
  serialised, so SQLite executes the statement later, before or after the statements
  queued around it. A statement is modelled by the values bound to it: url, date, data,
  \<open>created_at\<close> and \<open>expires_at\<close>, where \<open>None\<close> is a NaN expiry, which is bound as NULL.
\<close>

datatype statement = InsertOrReplace jsstring jsstring jsstring int "int option"

definition CacheService_set :: "'m js_runtime \<Rightarrow> int \<Rightarrow> jsstring \<Rightarrow> jsstring \<Rightarrow> 'm \<Rightarrow> statement" where
  "CacheService_set rt now u d payload =
     (let expiresAt = getExpirationTimestamp rt d;
          dataString = JSON_stringify rt payload
      in InsertOrReplace u d dataString now expiresAt)"

text \<open>
  What SQLite does when it executes the statement: the \<open>NOT NULL\<close> column refuses NULL, so
  the statement with a NaN expiry reports an error, as does the one with \<open>err\<close>.
\<close>

fun execute :: "database \<Rightarrow> bool \<Rightarrow> statement \<Rightarrow> database" where
  "execute db err (InsertOrReplace u d s c None) = db"
| "execute db err (InsertOrReplace u d s c (Some e)) =
     (if err then db else sql_insert_or_replace db u d s c e)"

text \<open>Queued statements executed in a given order, each with its outcome.\<close>

fun execute_all :: "database \<Rightarrow> (statement \<times> bool) list \<Rightarrow> database" where
  "execute_all db [] = db"
| "execute_all db ((st, err) # rest) = execute_all (execute db err st) rest"



text \<open>\<open>cleanupExpiredEntries\<close> queues its DELETE in the same way; this is the table once
  SQLite has executed it.\<close>

definition cleanupExpiredEntries :: "database \<Rightarrow> bool \<Rightarrow> int \<Rightarrow> database" where
  "cleanupExpiredEntries db err now = (if err then db else sql_delete_expired db now)"

section \<open>ScraperService (scraper.ts)\<close>

text \<open>
  A parsed \<open>URL\<close> object, as far as the service uses it: the serialisation of everything
  before the fragment, and the fragment (\<open>None\<close> is null). \<open>toString()\<close> appends
  \<open>#\<close> and the fragment when there is one; assigning the empty string to \<open>hash\<close> makes
  the fragment null.
\<close>

record URL =
  href_without_fragment :: jsstring
  url_fragment :: "jsstring option"

definition URL_toString :: "URL \<Rightarrow> jsstring" where
  "URL_toString x =
     href_without_fragment x @ (case url_fragment x of None \<Rightarrow> [] | Some f \<Rightarrow> js ''#'' @ f)"

definition URL_clear_hash :: "URL \<Rightarrow> URL" where
  "URL_clear_hash x = x\<lparr>url_fragment := None\<rparr>"

text \<open>A value that was thrown: an \<open>Error\<close> with its message, or something else.\<close>

datatype thrown = Error jsstring | NotAnError

definition message_or_unknown :: "thrown \<Rightarrow> jsstring" where
  "message_or_unknown t = (case t of Error m \<Rightarrow> m | NotAnError \<Rightarrow> js ''Unknown error'')"

text \<open>
  The outcome of \<open>axios.get\<close>: a response (status, data), an \<open>AxiosError\<close> (its \<open>code\<close>, its
  \<open>response\<close> with status and status text, whether it has a \<open>request\<close>, its message), or
  another thrown value.
\<close>

datatype axios_outcome =
    Response nat jsstring
  | AxiosError "jsstring option" "(nat \<times> jsstring) option" bool jsstring
  | OtherThrown thrown

text \<open>
  What the scraper takes from outside: the URL parser (\<open>None\<close> when \<open>new URL\<close> throws),
  \<open>String.prototype.toLowerCase\<close>, the network behind \<open>axios.get\<close>, the headless browser
  (the outcome of the \<open>k\<close>-th session opened during one scrape: the rendered markup, or what
  one of the steps outside a \<open>try\<close> threw), and what cheerio finds in a markup: the text
  returned by \<open>extractTextContent\<close> and the image list returned by \<open>findMenuImages\<close>
  (on the left the message of the \<open>TypeError\<close> of \<open>new URL(src, baseUrl)\<close>).
\<close>

record web =
  new_URL :: "jsstring \<Rightarrow> URL option"
  toLowerCase :: "jsstring \<Rightarrow> jsstring"
  axios_get :: "jsstring \<Rightarrow> axios_outcome"
  browser_session :: "nat \<Rightarrow> jsstring \<Rightarrow> thrown + jsstring"
  extractTextContent :: "jsstring \<Rightarrow> jsstring"
  findMenuImages :: "jsstring \<Rightarrow> jsstring \<Rightarrow> jsstring + jsstring list"

text \<open>The requests a scrape makes, in order: the target of \<open>axios.get\<close>, and the URL
  given to \<open>fetchPageContentWithPuppeteer\<close> (which it passes to \<open>page.goto\<close>).\<close>

datatype fetch_event = StaticGet jsstring | RenderedFetch jsstring

definition removeHashFromUrl :: "web \<Rightarrow> jsstring \<Rightarrow> jsstring" where
  "removeHashFromUrl w url =
     (case new_URL w url of
        Some urlObj \<Rightarrow> URL_toString (URL_clear_hash urlObj)
      | None \<Rightarrow> takeWhile (\<lambda>c. c \<noteq> 35) url)"

text \<open>The decimal digits of a number, as template literals print a status.\<close>

function decimal :: "nat \<Rightarrow> jsstring" where
  "decimal n = (if n < 10 then [48 + n] else decimal (n div 10) @ [48 + n mod 10])"
  by pat_completeness auto
termination
  by (relation "measure id") auto

declare decimal.simps [simp del]

text \<open>
  \<open>fetchPageContent\<close>. The \<open>throw\<close> for a status other than 200 is inside the \<open>try\<close>, so the
  \<open>catch\<close> of the same function wraps its message once more.
\<close>

definition fetchPageContent :: "web \<Rightarrow> jsstring \<Rightarrow> fetch_event list \<times> (jsstring + jsstring)" where
  "fetchPageContent w url =
     (let cleanUrl = removeHashFromUrl w url
      in ([StaticGet cleanUrl],
          case axios_get w cleanUrl of
            Response status data \<Rightarrow>
              if status \<noteq> 200
              then Inl (js ''Failed to fetch page: '' @ js ''Failed to fetch page: HTTP '' @ decimal status)
              else Inr data
          | AxiosError code response request message \<Rightarrow>
              if code = Some (js ''ECONNABORTED'')
              then Inl (js ''Request timeout: The server took too long to respond'')
              else (case response of
                      Some (status, statusText) \<Rightarrow> Inl (js ''HTTP '' @ decimal status @ js '': '' @ statusText)
                    | None \<Rightarrow>
                        if request then Inl (js ''Network error: Could not reach the server'')
                        else Inl (js ''Failed to fetch page: '' @ message))
          | OtherThrown t \<Rightarrow> Inl (js ''Failed to fetch page: '' @ message_or_unknown t)))"

definition fetchPageContentWithPuppeteer :: "web \<Rightarrow> nat \<Rightarrow> jsstring \<Rightarrow> jsstring + jsstring" where
  "fetchPageContentWithPuppeteer w k url =
     (case browser_session w k url of
        Inr html \<Rightarrow> Inr html
      | Inl t \<Rightarrow> Inl (js ''Failed to fetch page with Puppeteer: '' @ message_or_unknown t))"

text \<open>\<open>String.prototype.includes\<close>\<close>

fun str_includes :: "jsstring \<Rightarrow> jsstring \<Rightarrow> bool" where
  "str_includes [] t = (t = [])"
| "str_includes (c # cs) t = (prefix t (c # cs) \<or> str_includes cs t)"

text \<open>
  The regular expression of the source, with the flag \<open>i\<close>: \<open>\d+\<close>, then \<open>\s*\<close>, then one
  of three units, which are k followed by c with caron (code unit 269, capital 268), \<open>kc\<close>,
  and \<open>,-\<close>. \<open>\d\<close> is an ASCII digit, \<open>\s\<close> is white space or a line terminator, and under
  the flag a letter of the pattern stands for both of its cases. The expression is not
  anchored: it matches when it matches at some position.
\<close>

definition isDigit :: "nat \<Rightarrow> bool" where
  "isDigit c = (48 \<le> c \<and> c \<le> 57)"

definition isSpace :: "nat \<Rightarrow> bool" where
  "isSpace c = (c \<in> set [9, 10, 11, 12, 13, 32, 160, 5760, 8232, 8233, 8239, 8287, 12288, 65279]
                \<or> (8192 \<le> c \<and> c \<le> 8202))"

fun price_unit_here :: "jsstring \<Rightarrow> bool" where
  "price_unit_here (a # b # _) =
     ((a = 107 \<or> a = 75) \<and> (b = 269 \<or> b = 268) \<or>
      (a = 107 \<or> a = 75) \<and> (b = 99 \<or> b = 67) \<or>
      a = 44 \<and> b = 45)"
| "price_unit_here _ = False"

fun spaces_then_unit :: "jsstring \<Rightarrow> bool" where
  "spaces_then_unit [] = False"
| "spaces_then_unit (c # cs) = (price_unit_here (c # cs) \<or> isSpace c \<and> spaces_then_unit cs)"

fun digits_then_unit :: "jsstring \<Rightarrow> bool" where
  "digits_then_unit [] = False"
| "digits_then_unit (c # cs) = (isDigit c \<and> (spaces_then_unit cs \<or> digits_then_unit cs))"

fun price_pattern_matches :: "jsstring \<Rightarrow> bool" where
  "price_pattern_matches [] = False"
| "price_pattern_matches (c # cs) = (digits_then_unit (c # cs) \<or> price_pattern_matches cs)"

text \<open>The two values computed by \<open>scrapeMenuPageWithImages\<close> from the static result.\<close>

definition hasMenuContent :: "web \<Rightarrow> jsstring \<Rightarrow> jsstring list \<Rightarrow> bool" where
  "hasMenuContent w text images =
     (str_includes (toLowerCase w text) (js ''pol'' @ [233] @ js ''vka'') \<or>
      str_includes (toLowerCase w text) (js ''soup'') \<or>
      str_includes (toLowerCase w text) (js ''cena'') \<or>
      str_includes (toLowerCase w text) (js ''k'' @ [269]) \<or>
      price_pattern_matches text \<or>
      length images > 0)"

definition mentionsMenuButNoItems :: "web \<Rightarrow> jsstring \<Rightarrow> jsstring list \<Rightarrow> bool" where
  "mentionsMenuButNoItems w text images =
     ((str_includes (toLowerCase w text) (js ''denn'' @ [237] @ js '' menu'') \<or>
       str_includes (toLowerCase w text) (js ''poledn'' @ [237] @ js '' nab'' @ [237] @ js ''dka'') \<or>
       str_includes (toLowerCase w text) (js ''menu'')) \<and>
      \<not> hasMenuContent w text images)"

text \<open>
  The three statements that the source has twice, after a static result without menu
  content and in the \<open>catch\<close> block: fetch with Puppeteer (the \<open>k\<close>-th session), extract the
  text, find the images.
\<close>

definition renderedAttempt ::
  "web \<Rightarrow> nat \<Rightarrow> jsstring \<Rightarrow> fetch_event list \<times> (jsstring + jsstring \<times> jsstring list)" where
  "renderedAttempt w k url =
     ([RenderedFetch url],
      case fetchPageContentWithPuppeteer w k url of
        Inl e \<Rightarrow> Inl e
      | Inr html \<Rightarrow>
          (let text = extractTextContent w html
           in case findMenuImages w html url of
                Inl e \<Rightarrow> Inl e
              | Inr images \<Rightarrow> Inr (text, images)))"

text \<open>
  The \<open>catch (error)\<close> block of \<open>scrapeMenuPageWithImages\<close>, entered with the message of
  \<open>error\<close>, the requests made so far, and the number of browser sessions opened so far.
\<close>

definition catch_block ::
  "web \<Rightarrow> nat \<Rightarrow> jsstring \<Rightarrow> jsstring \<Rightarrow> fetch_event list
     \<Rightarrow> fetch_event list \<times> (jsstring + jsstring \<times> jsstring list)" where
  "catch_block w k url error sofar =
     (case renderedAttempt w k url of
        (tr, Inr result) \<Rightarrow> (sofar @ tr, Inr result)
      | (tr, Inl puppeteerError) \<Rightarrow> (sofar @ tr, Inl (js ''Failed to fetch page: '' @ error)))"

definition scrapeMenuPageWithImages ::
  "web \<Rightarrow> jsstring \<Rightarrow> fetch_event list \<times> (jsstring + jsstring \<times> jsstring list)" where
  "scrapeMenuPageWithImages w url =
     (case fetchPageContent w url of
        (tr, Inl error) \<Rightarrow> catch_block w 0 url error tr
      | (tr, Inr html) \<Rightarrow>
          (let text = extractTextContent w html
           in case findMenuImages w html url of
                Inl error \<Rightarrow> catch_block w 0 url error tr
              | Inr images \<Rightarrow>
                  if hasMenuContent w text images then (tr, Inr (text, images))
                  else if mentionsMenuButNoItems w text images \<or> \<not> hasMenuContent w text images then
                    (case renderedAttempt w 0 url of
                       (tr', Inr result) \<Rightarrow> (tr @ tr', Inr result)
                     | (tr', Inl error) \<Rightarrow> catch_block w 1 url error (tr @ tr'))
                  else (tr, Inr (text, images))))"

text \<open>
  The function without the value \<open>mentionsMenuButNoItems\<close> and without the last \<open>return\<close>:
  the rendered fetch is decided by the negation of \<open>hasMenuContent\<close> alone.
\<close>

definition scrapeMenuPageWithImages_simplified ::
  "web \<Rightarrow> jsstring \<Rightarrow> fetch_event list \<times> (jsstring + jsstring \<times> jsstring list)" where
  "scrapeMenuPageWithImages_simplified w url =
     (case fetchPageContent w url of
        (tr, Inl error) \<Rightarrow> catch_block w 0 url error tr
      | (tr, Inr html) \<Rightarrow>
          (let text = extractTextContent w html
           in case findMenuImages w html url of
                Inl error \<Rightarrow> catch_block w 0 url error tr
              | Inr images \<Rightarrow>
                  if \<not> hasMenuContent w text images then
                    (case renderedAttempt w 0 url of
                       (tr', Inr result) \<Rightarrow> (tr @ tr', Inr result)
                     | (tr', Inl error) \<Rightarrow> catch_block w 1 url error (tr @ tr'))
                  else (tr, Inr (text, images))))"

definition rendered_fetches :: "fetch_event list \<Rightarrow> jsstring list" where
  "rendered_fetches tr = concat (map (\<lambda>e. case e of RenderedFetch u \<Rightarrow> [u] | StaticGet _ \<Rightarrow> []) tr)"

definition static_gets :: "fetch_event list \<Rightarrow> jsstring list" where
  "static_gets tr = concat (map (\<lambda>e. case e of StaticGet u \<Rightarrow> [u] | RenderedFetch _ \<Rightarrow> []) tr)"

section \<open>MenuService (menuService.ts)\<close>

text \<open>
  \<open>Date.prototype.toISOString\<close> on a time value in milliseconds: the UTC calendar date of
  the day number (the proleptic Gregorian calendar, by eras of 400 years counted from
  1 March), then the UTC time of day. Years outside 0 to 9999 are printed with a sign and
  six digits.
\<close>

definition civil_from_days :: "int \<Rightarrow> int \<times> int \<times> int" where
  "civil_from_days z0 =
     (let z = z0 + 719468;
          era = z div 146097;
          doe = z mod 146097;
          yoe = (doe - doe div 1460 + doe div 36524 - doe div 146096) div 365;
          doy = doe - (365 * yoe + yoe div 4 - yoe div 100);
          mp = (5 * doy + 2) div 153;
          d = doy - (153 * mp + 2) div 5 + 1;
          m = (if mp < 10 then mp + 3 else mp - 9);
          y = yoe + era * 400 + (if m \<le> 2 then 1 else 0)
      in (y, m, d))"

definition zero_pad :: "nat \<Rightarrow> int \<Rightarrow> jsstring" where
  "zero_pad k n = replicate (k - length (decimal (nat n))) 48 @ decimal (nat n)"

definition Date_toISOString :: "int \<Rightarrow> jsstring" where
  "Date_toISOString t =
     (case civil_from_days (t div 86400000) of (y, m, d) \<Rightarrow>
        (let ms = t mod 86400000
         in (if 0 \<le> y \<and> y \<le> 9999 then zero_pad 4 y
             else (if y < 0 then js ''-'' else js ''+'') @ zero_pad 6 (abs y))
            @ js ''-'' @ zero_pad 2 m @ js ''-'' @ zero_pad 2 d
            @ js ''T'' @ zero_pad 2 (ms div 3600000)
            @ js '':'' @ zero_pad 2 (ms mod 3600000 div 60000)
            @ js '':'' @ zero_pad 2 (ms mod 60000 div 1000)
            @ js ''.'' @ zero_pad 3 (ms mod 1000) @ js ''Z''))"

text \<open>\<open>getCurrentDate\<close>: \<open>new Date().toISOString().split('T')[0]\<close>, at the instant \<open>now\<close>.\<close>

definition getCurrentDate :: "int \<Rightarrow> jsstring" where
  "getCurrentDate now = takeWhile (\<lambda>c. c \<noteq> 84) (Date_toISOString now)"

text \<open>\<open>const targetDate = date || this.getCurrentDate()\<close>: an absent date is \<open>None\<close>, and the
  empty string is falsy as well.\<close>

definition targetDate :: "int \<Rightarrow> jsstring option \<Rightarrow> jsstring" where
  "targetDate now date =
     (case date of
        None \<Rightarrow> getCurrentDate now
      | Some d \<Rightarrow> if d = [] then getCurrentDate now else d)"

text \<open>
  The current local calendar date, as YYYY-MM-DD, of a process whose local time is ahead
  of UTC by \<open>offset\<close> milliseconds at the instant \<open>now\<close>.
\<close>

definition local_calendar_date :: "int \<Rightarrow> int \<Rightarrow> jsstring" where
  "local_calendar_date offset now = takeWhile (\<lambda>c. c \<noteq> 84) (Date_toISOString (now + offset))"

text \<open>The table of \<open>getDayOfWeek\<close>, Sunday first, with the Czech letters as code units.\<close>

definition days :: "jsstring list" where
  "days =
     [js ''ned'' @ [283] @ js ''le'',
      js ''pond'' @ [283] @ js ''l'' @ [237],
      [250] @ js ''ter'' @ [253],
      js ''st'' @ [345] @ js ''eda'',
      [269] @ js ''tvrtek'',
      js ''p'' @ [225] @ js ''tek'',
      js ''sobota'']"

text \<open>\<open>getDayOfWeek\<close>; \<open>None\<close> is \<open>undefined\<close>, the entry at the index NaN of an invalid date.\<close>

definition getDayOfWeek :: "'m js_runtime \<Rightarrow> jsstring \<Rightarrow> jsstring option" where
  "getDayOfWeek rt dateString =
     (case Date_parse_local rt (dateString @ js ''T00:00:00'') of
        None \<Rightarrow> None
      | Some t \<Rightarrow> if Date_getDay rt t < length days then Some (days ! Date_getDay rt t) else None)"

text \<open>\<open>String.prototype.trim\<close>\<close>

definition trim :: "jsstring \<Rightarrow> jsstring" where
  "trim s = rev (dropWhile isSpace (rev (dropWhile isSpace s)))"

text \<open>
  The collaborators of the service: the web behind the scraper, the runtime behind the
  cache, and \<open>LLMService.extractMenu\<close> (page content, URL, date, day of week, images),
  which returns a menu summary or throws.
\<close>

record 'm services =
  the_web :: web
  runtime :: "'m js_runtime"
  llm_extractMenu ::
    "jsstring \<Rightarrow> jsstring \<Rightarrow> jsstring \<Rightarrow> jsstring option \<Rightarrow> jsstring list option \<Rightarrow> jsstring + 'm"

text \<open>
  What one call of \<open>summarizeMenu\<close> reads from the clock (in \<open>getCurrentDate\<close>, in
  \<open>cache.get\<close> and in \<open>cache.set\<close>) and whether SQLite reports an error for the statements
  of \<open>cache.get\<close>.
\<close>

record call_io =
  clock_date :: int
  clock_get :: int
  clock_set :: int
  io_select_err :: bool
  io_delete_err :: bool

text \<open>What a call does, in order: cache lookups and writes with their key, the requests
  of the scraper, and the call of the extraction. In \<open>summarizeMenu\<close> a payload read from
  the cache is an object, so \<open>if (cached)\<close> is taken exactly when \<open>get\<close> did not answer null.
  The call returns the table as its lookup left it, the events, the statements still
  queued when it returns, and the result.\<close>

datatype 'm event =
    CacheGet jsstring jsstring
  | Fetch fetch_event
  | ExtractMenu jsstring jsstring jsstring "jsstring option" "jsstring list option"
  | CacheSet jsstring jsstring 'm

definition summarizeMenu ::
  "'m services \<Rightarrow> database \<Rightarrow> call_io \<Rightarrow> jsstring \<Rightarrow> jsstring option
     \<Rightarrow> database \<times> 'm event list \<times> statement list \<times> (jsstring + 'm)" where
  "summarizeMenu sv db io url date =
     (let target = targetDate (clock_date io) date;
          dayOfWeek = getDayOfWeek (runtime sv) target
      in case CacheService_get (runtime sv) db (io_select_err io) (io_delete_err io) (clock_get io)
                url target of
           (db1, Some cached) \<Rightarrow> (db1, [CacheGet url target], [], Inr cached)
         | (db1, None) \<Rightarrow>
             (case scrapeMenuPageWithImages (the_web sv) url of
                (tr, Inl e) \<Rightarrow> (db1, CacheGet url target # map Fetch tr, [], Inl e)
              | (tr, Inr (pageContent, menuImages)) \<Rightarrow>
                  if pageContent = [] \<or> length (trim pageContent) = 0
                  then (db1, CacheGet url target # map Fetch tr, [],
                        Inl (js ''No content extracted from the page''))
                  else
                    (let images = (if length menuImages > 0 then Some menuImages else None);
                         called = CacheGet url target # map Fetch tr @
                                    [ExtractMenu pageContent url target dayOfWeek images]
                     in case llm_extractMenu sv pageContent url target dayOfWeek images of
                          Inl e \<Rightarrow> (db1, called, [], Inl e)
                        | Inr menuSummary \<Rightarrow>
                            (db1,
                             called @ [CacheSet url target menuSummary],
                             [CacheService_set (runtime sv) (clock_set io) url target menuSummary],
                             Inr menuSummary))))"

text \<open>The keys of the cache operations of a call, and the requests of its scrape.\<close>

definition cache_keys :: "'m event list \<Rightarrow> (jsstring \<times> jsstring) list" where
  "cache_keys tr =
     concat (map (\<lambda>e. case e of CacheGet u d \<Rightarrow> [(u, d)] | CacheSet u d _ \<Rightarrow> [(u, d)] | _ \<Rightarrow> []) tr)"

definition fetch_events :: "'m event list \<Rightarrow> fetch_event list" where
  "fetch_events tr = concat (map (\<lambda>e. case e of Fetch f \<Rightarrow> [f] | _ \<Rightarrow> []) tr)"

text \<open>
  Two URL strings that differ only by a fragment: the parser reads both and the two URLs
  agree on everything before the fragment, or it reads neither and the strings agree up
  to the first \<open>#\<close>.
\<close>

definition same_up_to_fragment :: "web \<Rightarrow> jsstring \<Rightarrow> jsstring \<Rightarrow> bool" where
  "same_up_to_fragment w u u' =
     (case (new_URL w u, new_URL w u') of
        (Some a, Some b) \<Rightarrow> href_without_fragment a = href_without_fragment b
      | (None, None) \<Rightarrow> takeWhile (\<lambda>c. c \<noteq> 35) u = takeWhile (\<lambda>c. c \<noteq> 35) u'
      | _ \<Rightarrow> False)"

text \<open>
  A runtime for evaluating the model on examples: the payload is its own serialisation,
  the empty string is not JSON, and the only date known is 2025-10-22, a Wednesday whose
  midnight (UTC+2) is 1761084000000 ms.
\<close>

definition sample_runtime :: "jsstring js_runtime" where
  "sample_runtime =
     \<lparr>JSON_stringify = (\<lambda>p. p),
      JSON_parse = (\<lambda>s. if s = [] then None else Some s),
      Date_parse_local = (\<lambda>s. if s = js ''2025-10-22T00:00:00'' then Some 1761084000000 else None),
      Date_add_local_day = (\<lambda>t. t + 86400000),
      Date_getDay = (\<lambda>t. 3)\<rparr>"

text \<open>
  A web for evaluating the model on examples. Its URL parser accepts what starts with
  \<open>http\<close> and cuts at the first \<open>#\<close>; its \<open>toLowerCase\<close> maps the ASCII capitals and the
  capital C with caron; text extraction returns the markup as it is and no image is found.
  \<open>/menu\<close> serves a priced menu, \<open>/spa\<close> and \<open>/about\<close> serve a page without any marker,
  \<open>slow.example\<close> times out, and the browser fails on \<open>/about\<close> only.
\<close>

definition ascii_lower :: "jsstring \<Rightarrow> jsstring" where
  "ascii_lower s = map (\<lambda>c. if 65 \<le> c \<and> c \<le> 90 then c + 32 else if c = 268 then 269 else c) s"

definition sample_web :: web where
  "sample_web =
     \<lparr>new_URL = (\<lambda>s. if prefix (js ''http'') s
          then Some \<lparr>href_without_fragment = takeWhile (\<lambda>c. c \<noteq> 35) s,
                     url_fragment = (case dropWhile (\<lambda>c. c \<noteq> 35) s of [] \<Rightarrow> None | _ # f \<Rightarrow> Some f)\<rparr>
          else None),
      toLowerCase = ascii_lower,
      axios_get = (\<lambda>u.
          if u = js ''https://example.com/menu'' then Response 200 (js ''Polevka 45 Kc'')
          else if u = js ''https://example.com/spa'' then Response 200 (js ''Loading'')
          else if u = js ''https://example.com/about'' then Response 200 (js ''Welcome'')
          else if u = js ''https://slow.example/'' then
            AxiosError (Some (js ''ECONNABORTED'')) None True (js ''timeout of 10000ms exceeded'')
          else AxiosError (Some (js ''ENOTFOUND'')) None True (js ''getaddrinfo ENOTFOUND'')),
      browser_session = (\<lambda>k u.
          if u = js ''https://example.com/about''
          then Inl (Error (js ''Navigation timeout of 20000 ms exceeded''))
          else Inr (js ''Rendered page'')),
      extractTextContent = (\<lambda>html. html),
      findMenuImages = (\<lambda>html baseUrl. Inr [])\<rparr>"

definition sample_url :: jsstring where
  "sample_url = js ''https://example.com/menu''"

definition sample_date :: jsstring where
  "sample_date = js ''2025-10-22''"

definition sample_row :: cache_row where
  "sample_row =
     \<lparr>row_id = 1, row_url = sample_url, row_date = sample_date,
      row_data = js ''{}'', created_at = 1761100000000, expires_at = 1761170400000\<rparr>"

text \<open>The table once the INSERT of \<open>set(url, '2025-10-22', {})\<close>, called at 1761100000000 on
  a fresh database, has been executed.\<close>

definition sample_db :: database where
  "sample_db = execute empty_database False
       (CacheService_set sample_runtime 1761100000000 sample_url sample_date (js ''{}''))"

text \<open>A table whose row for the key holds a payload that \<open>JSON.parse\<close> refuses.\<close>

definition broken_db :: database where
  "broken_db = execute empty_database False
       (CacheService_set sample_runtime 1761100000000 sample_url sample_date [])"

text \<open>Services for the examples: the extraction answers \<open>{}\<close> for every page.\<close>

definition fragment_url :: jsstring where
  "fragment_url = js ''https://example.com/menu#denni-menu''"

definition sample_services :: "jsstring services" where
  "sample_services =
     \<lparr>the_web = sample_web, runtime = sample_runtime,
      llm_extractMenu = (\<lambda>pageContent url currentDate dayOfWeek menuImages. Inr (js ''{}''))\<rparr>"

text \<open>A call in the morning of 2025-10-22 (UTC+2), every statement going through.\<close>

definition sample_io :: call_io where
  "sample_io =
     \<lparr>clock_date = 1761100000100, clock_get = 1761100000100, clock_set = 1761100000200,
      io_select_err = False, io_delete_err = False\<rparr>"

text \<open>A call at 00:30 on 2025-10-23 in a process at UTC+2, which is 22:30 UTC on 2025-10-22.\<close>

definition after_midnight_io :: call_io where
  "after_midnight_io =
     \<lparr>clock_date = 1761172200000, clock_get = 1761172200000, clock_set = 1761172200100,
      io_select_err = False, io_delete_err = False\<rparr>"

section \<open>Properties of the cache\<close>

lemma js_eq_iff: "js s = js t \<longleftrightarrow> s = t"
  unfolding js_def using inj_of_char [where ?'a = nat] by (simp add: inj_map_eq_map)

lemma find_as_filter: "find P xs = (case filter P xs of [] \<Rightarrow> None | r # _ \<Rightarrow> Some r)"
  by (induction xs) auto

lemma filter_other_key:
  "(u', d') \<noteq> (u, d) \<Longrightarrow> filter (has_key u' d') (filter (\<lambda>r. \<not> has_key u d r) xs) = filter (has_key u' d') xs"
  unfolding filter_filter by (rule filter_cong) (auto simp add: has_key_def)

lemma has_key_fields:
  "has_key u' d' \<lparr>row_id = i, row_url = u, row_date = d, row_data = s, created_at = c, expires_at = e\<rparr>
     \<longleftrightarrow> u = u' \<and> d = d'"
  by (simp add: has_key_def)

lemma select_rows_for: "sql_select db u d = (case rows_for db u d of [] \<Rightarrow> None | r # _ \<Rightarrow> Some r)"
  unfolding sql_select_def rows_for_def by (rule find_as_filter)

lemma rows_for_insert_same:
  "rows_for (sql_insert_or_replace db u d s c e) u d =
     [\<lparr>row_id = Suc (seq db), row_url = u, row_date = d, row_data = s,
       created_at = c, expires_at = e\<rparr>]"
  by (simp add: rows_for_def sql_insert_or_replace_def has_key_def)

lemma rows_for_insert_other:
  "(u', d') \<noteq> (u, d) \<Longrightarrow> rows_for (sql_insert_or_replace db u d s c e) u' d' = rows_for db u' d'"
  unfolding rows_for_def sql_insert_or_replace_def
  by (simp add: filter_other_key has_key_fields del: filter_filter) auto

lemma rows_for_delete_same: "rows_for (sql_delete db u d) u d = []"
  by (simp add: rows_for_def sql_delete_def)

lemma rows_for_delete_other:
  "(u', d') \<noteq> (u, d) \<Longrightarrow> rows_for (sql_delete db u d) u' d' = rows_for db u' d'"
  unfolding rows_for_def sql_delete_def
  by (simp add: filter_other_key del: filter_filter)

lemma execute_leaves_other_keys:
  "(u', d') \<noteq> (u, d) \<Longrightarrow>
   rows_for (execute db err (InsertOrReplace u d s c e)) u' d' = rows_for db u' d'"
  by (cases e) (simp_all add: rows_for_insert_other)

lemma execute_keeps_one_row:
  assumes "length (rows_for db u' d') \<le> 1"
  shows "length (rows_for (execute db err st) u' d') \<le> 1"
proof (cases st)
  case (InsertOrReplace u d s c e)
  show ?thesis
  proof (cases "(u', d') = (u, d)")
    case True
    with assms show ?thesis
      unfolding InsertOrReplace by (cases e) (simp_all add: rows_for_insert_same)
  next
    case False
    with assms show ?thesis
      unfolding InsertOrReplace by (simp add: execute_leaves_other_keys)
  qed
qed

text \<open>
  Whatever statements are executed, in whatever order and with whatever outcome, a key
  with at most one row keeps at most one row: this holds of every execution order of the
  INSERTs queued by any sequence of calls of \<open>set\<close>.
\<close>

lemma one_row_per_key_in_any_order:
  "length (rows_for db u d) \<le> 1 \<Longrightarrow> length (rows_for (execute_all db sts) u d) \<le> 1"
proof (induction sts arbitrary: db)
  case Nil
  then show ?case by simp
next
  case (Cons a sts)
  obtain st err where a: "a = (st, err)"
    by (cases a)
  show ?case
    unfolding a using Cons.IH [OF execute_keeps_one_row [OF Cons.prems]] by simp
qed

text \<open>The INSERT of \<open>set\<close> on one key leaves the rows of every other key as they were.\<close>

lemma set_leaves_other_keys:
  "(u', d') \<noteq> (u, d) \<Longrightarrow>
   rows_for (execute db err (CacheService_set rt t u d p)) u' d' = rows_for db u' d'"
  by (simp add: CacheService_set_def Let_def execute_leaves_other_keys)

text \<open>Of two INSERTs on a key with a valid date, the one executed last leaves its payload.\<close>

lemma insert_executed_last_wins:
  "getExpirationTimestamp rt d = Some e \<Longrightarrow>
   map row_data (rows_for
     (execute (execute db err1 (CacheService_set rt t1 u d p1)) False (CacheService_set rt t2 u d p2)) u d)
     = [JSON_stringify rt p2]"
  by (simp add: CacheService_set_def Let_def rows_for_insert_same)

lemma rows_for_empty_database: "rows_for empty_database u d = []"
  by (simp add: rows_for_def empty_database_def)

lemma sample_expiry: "getExpirationTimestamp sample_runtime sample_date = Some 1761170400000"
  by (simp add: getExpirationTimestamp_def sample_runtime_def sample_date_def js_def)

lemma sample_stringify: "JSON_stringify sample_runtime p = p"
  by (simp add: sample_runtime_def)

lemma sample_parse: "JSON_parse sample_runtime s = (if s = [] then None else Some s)"
  by (simp add: sample_runtime_def)

lemma sample_db_rows: "menu_cache sample_db = [sample_row]"
  by (simp add: sample_db_def CacheService_set_def Let_def sample_expiry sample_stringify
      sql_insert_or_replace_def empty_database_def sample_row_def)

lemma sample_db_select: "sql_select sample_db sample_url sample_date = Some sample_row"
  by (simp add: sql_select_def sample_db_rows has_key_def sample_row_def)

lemma broken_db_select:
  "sql_select broken_db sample_url sample_date =
     Some \<lparr>row_id = 1, row_url = sample_url, row_date = sample_date, row_data = [],
           created_at = 1761100000000, expires_at = 1761170400000\<rparr>"
  by (simp add: broken_db_def CacheService_set_def Let_def sample_expiry sample_stringify
      sql_insert_or_replace_def empty_database_def sql_select_def has_key_def)

text \<open>
  C5. A row whose \<open>expires_at\<close> has passed when \<open>get\<close> looks its key up is never returned:
  \<open>get\<close> answers null whatever SQLite reports, and when the SELECT and the DELETE go
  through, no row is left for the key after the call. In particular an entry written by
  the INSERT of \<open>set\<close>, whose \<open>expires_at\<close> is the midnight after its date as
  \<open>getExpirationTimestamp\<close> computes it, is absent from that instant on. Nothing here depends on
  \<open>cleanupExpiredEntries\<close> having run.
\<close>

theorem get_expired_row_absent_and_deleted:
  "(sql_select db u d = Some r \<and> expires_at r \<le> now \<longrightarrow>
      snd (CacheService_get rt db select_err delete_err now u d) = None \<and>
      rows_for (fst (CacheService_get rt db False False now u d)) u d = []) \<and>
   (getExpirationTimestamp rt d = Some e \<and> e \<le> now \<longrightarrow>
      snd (CacheService_get rt (execute db False (CacheService_set rt t u d p)) select_err delete_err now u d)
        = None)"
proof -
  have a: "sql_select db u d = Some r \<and> expires_at r \<le> now \<longrightarrow>
      snd (CacheService_get rt db select_err delete_err now u d) = None \<and>
      rows_for (fst (CacheService_get rt db False False now u d)) u d = []"
    by (simp add: CacheService_get_def CacheService_delete_def rows_for_delete_same)
  have b: "getExpirationTimestamp rt d = Some e \<and> e \<le> now \<longrightarrow>
      snd (CacheService_get rt (execute db False (CacheService_set rt t u d p)) select_err delete_err now u d)
        = None"
    by (simp add: CacheService_get_def CacheService_set_def Let_def select_rows_for rows_for_insert_same)
  from a b show ?thesis by blast
qed

text \<open>
  The entry stored for 2025-10-22 expires at 1761170400000 (midnight of 2025-10-23 at
  UTC+2) and is absent one second later.
\<close>

theorem get_expired_row_absent_and_deleted_witness:
  "sql_select sample_db sample_url sample_date = Some sample_row \<and>
   expires_at sample_row \<le> 1761170401000 \<and>
   snd (CacheService_get sample_runtime sample_db False False 1761170401000 sample_url sample_date) = None \<and>
   rows_for (fst (CacheService_get sample_runtime sample_db False False 1761170401000 sample_url sample_date))
     sample_url sample_date = [] \<and>
   getExpirationTimestamp sample_runtime sample_date = Some 1761170400000 \<and>
   snd (CacheService_get sample_runtime
     (execute empty_database False
        (CacheService_set sample_runtime 1761100000000 sample_url sample_date (js ''{}'')))
     False False 1761170401000 sample_url sample_date) = None"
proof -
  have h1: "sql_select sample_db sample_url sample_date = Some sample_row"
    by (rule sample_db_select)
  have h2: "expires_at sample_row \<le> 1761170401000"
    by (simp add: sample_row_def)
  have h3: "getExpirationTimestamp sample_runtime sample_date = Some 1761170400000"
    by (rule sample_expiry)
  from get_expired_row_absent_and_deleted [where db = sample_db and u = sample_url and d = sample_date
      and r = sample_row and now = 1761170401000 and rt = sample_runtime
      and select_err = False and delete_err = False and e = 1761170400000
      and t = 1761100000000 and p = "js ''{}''"] h1 h2 h3
  have "snd (CacheService_get sample_runtime sample_db False False 1761170401000 sample_url sample_date) = None \<and>
        rows_for (fst (CacheService_get sample_runtime sample_db False False 1761170401000 sample_url sample_date))
          sample_url sample_date = []"
    by simp
  with h1 h2 h3 show ?thesis
    by (simp add: sample_db_def)
qed

text \<open>
  C6. Two calls of \<open>set\<close> on the same key, made one after the other, queue two INSERTs.
  When SQLite executes the second before the first, the row left for the key holds the
  first payload, not the second. And on a key whose date is not a date, here 2025-13-01,
  both INSERTs are refused and no row is left at all.
\<close>

theorem second_set_can_lose_to_the_first:
  "map row_data (rows_for (execute_all empty_database
       [(CacheService_set sample_runtime 2 sample_url sample_date (js ''second''), False),
        (CacheService_set sample_runtime 1 sample_url sample_date (js ''first''), False)])
     sample_url sample_date) = [js ''first''] \<and>
   rows_for (execute_all empty_database
       [(CacheService_set sample_runtime 1 sample_url (js ''2025-13-01'') (js ''first''), False),
        (CacheService_set sample_runtime 2 sample_url (js ''2025-13-01'') (js ''second''), False)])
     sample_url (js ''2025-13-01'') = []"
proof -
  have bad: "getExpirationTimestamp sample_runtime (js ''2025-13-01'') = None"
    by (simp add: getExpirationTimestamp_def sample_runtime_def js_def)
  show ?thesis
    by (simp add: CacheService_set_def Let_def sample_expiry bad sample_stringify
        rows_for_insert_same rows_for_empty_database)
qed




text \<open>
  C10. \<open>get\<close> answers null, and leaves the table alone, when SQLite reports an error for
  the SELECT; and it answers null when the row found holds a string that \<open>JSON.parse\<close>
  refuses. \<open>get\<close> has no other outcome than a payload or null: the promise of the source
  is only ever resolved.
\<close>

theorem get_read_or_parse_error_is_miss:
  "CacheService_get rt db True delete_err now u d = (db, None) \<and>
   (sql_select db u d = Some r \<and> JSON_parse rt (row_data r) = None \<longrightarrow>
      snd (CacheService_get rt db select_err delete_err now u d) = None)"
  by (simp add: CacheService_get_def)

theorem get_read_or_parse_error_is_miss_witness:
  "CacheService_get sample_runtime sample_db True False 1761100000100 sample_url sample_date = (sample_db, None) \<and>
   sql_select broken_db sample_url sample_date \<noteq> None \<and>
   JSON_parse sample_runtime (row_data (the (sql_select broken_db sample_url sample_date))) = None \<and>
   snd (CacheService_get sample_runtime broken_db False False 1761100000100 sample_url sample_date) = None"
proof -
  have h1: "JSON_parse sample_runtime [] = None"
    by (simp add: sample_parse)
  from get_read_or_parse_error_is_miss [where rt = sample_runtime and db = sample_db
      and delete_err = False and now = 1761100000100 and u = sample_url and d = sample_date]
  have a: "CacheService_get sample_runtime sample_db True False 1761100000100 sample_url sample_date = (sample_db, None)"
    by blast
  from get_read_or_parse_error_is_miss [where rt = sample_runtime and db = broken_db
      and delete_err = False and now = 1761100000100 and u = sample_url and d = sample_date
      and select_err = False
      and r = "\<lparr>row_id = 1, row_url = sample_url, row_date = sample_date, row_data = [],
           created_at = 1761100000000, expires_at = 1761170400000\<rparr>"]
    broken_db_select h1
  have b: "snd (CacheService_get sample_runtime broken_db False False 1761100000100 sample_url sample_date) = None"
    by simp
  from a b h1 show ?thesis by (simp add: broken_db_select)
qed

section \<open>Properties of the scraper\<close>

lemmas scraper_defs = scrapeMenuPageWithImages_def scrapeMenuPageWithImages_simplified_def
  fetchPageContent_def removeHashFromUrl_def URL_toString_def URL_clear_hash_def
  fetchPageContentWithPuppeteer_def renderedAttempt_def catch_block_def hasMenuContent_def
  mentionsMenuButNoItems_def message_or_unknown_def isDigit_def isSpace_def rendered_fetches_def
  static_gets_def

lemmas sample_defs = sample_web_def ascii_lower_def js_def sample_url_def sample_date_def
  sample_runtime_def sample_services_def sample_io_def after_midnight_io_def sample_db_def
  fragment_url_def sample_row_def

lemma fetchPageContent_trace: "fst (fetchPageContent w url) = [StaticGet (removeHashFromUrl w url)]"
  by (simp add: fetchPageContent_def Let_def)

lemma renderedAttempt_trace: "fst (renderedAttempt w k url) = [RenderedFetch url]"
  by (simp add: renderedAttempt_def)

lemma catch_block_eq:
  "catch_block w k url error sofar =
     (sofar @ [RenderedFetch url],
      case snd (renderedAttempt w k url) of
        Inr result \<Rightarrow> Inr result
      | Inl e \<Rightarrow> Inl (js ''Failed to fetch page: '' @ error))"
  by (simp add: catch_block_def renderedAttempt_def split: sum.splits)

lemma rendered_fetches_simps:
  "rendered_fetches [] = []"
  "rendered_fetches (StaticGet u # tr) = rendered_fetches tr"
  "rendered_fetches (RenderedFetch u # tr) = u # rendered_fetches tr"
  "rendered_fetches (tr @ tr') = rendered_fetches tr @ rendered_fetches tr'"
  by (simp_all add: rendered_fetches_def)

lemma static_gets_simps:
  "static_gets [] = []"
  "static_gets (StaticGet u # tr) = u # static_gets tr"
  "static_gets (RenderedFetch u # tr) = static_gets tr"
  "static_gets (tr @ tr') = static_gets tr @ static_gets tr'"
  by (simp_all add: static_gets_def)

lemma static_success:
  "snd (fetchPageContent w url) = Inr html \<Longrightarrow>
   fetchPageContent w url = ([StaticGet (removeHashFromUrl w url)], Inr html)"
  using fetchPageContent_trace [of w url] by (cases "fetchPageContent w url") simp

lemma static_failure:
  "snd (fetchPageContent w url) = Inl error \<Longrightarrow>
   fetchPageContent w url = ([StaticGet (removeHashFromUrl w url)], Inl error)"
  using fetchPageContent_trace [of w url] by (cases "fetchPageContent w url") simp

lemma rendered_outcome:
  "snd (renderedAttempt w k url) = r \<Longrightarrow> renderedAttempt w k url = ([RenderedFetch url], r)"
  using renderedAttempt_trace [of w k url] by (cases "renderedAttempt w k url") simp

text \<open>
  C3. When the static fetch succeeds and \<open>hasMenuContent\<close> holds of the text and images
  extracted from its markup, the static text and images are the result, and the requests
  made are the one static GET: the rendered fetcher is not invoked.
\<close>

theorem menu_like_static_result_is_returned:
  assumes "snd (fetchPageContent w url) = Inr html"
    and "findMenuImages w html url = Inr images"
    and "hasMenuContent w (extractTextContent w html) images"
  shows "scrapeMenuPageWithImages w url =
           ([StaticGet (removeHashFromUrl w url)], Inr (extractTextContent w html, images)) \<and>
         rendered_fetches (fst (scrapeMenuPageWithImages w url)) = []"
proof -
  have "scrapeMenuPageWithImages w url =
          ([StaticGet (removeHashFromUrl w url)], Inr (extractTextContent w html, images))"
    using assms(2,3) by (simp add: scrapeMenuPageWithImages_def static_success [OF assms(1)])
  then show ?thesis
    by (simp add: rendered_fetches_simps)
qed

theorem menu_like_static_result_is_returned_witness:
  "snd (fetchPageContent sample_web sample_url) = Inr (js ''Polevka 45 Kc'') \<and>
   findMenuImages sample_web (js ''Polevka 45 Kc'') sample_url = Inr [] \<and>
   hasMenuContent sample_web (extractTextContent sample_web (js ''Polevka 45 Kc'')) [] \<and>
   scrapeMenuPageWithImages sample_web sample_url =
     ([StaticGet (removeHashFromUrl sample_web sample_url)],
      Inr (extractTextContent sample_web (js ''Polevka 45 Kc''), [])) \<and>
   rendered_fetches (fst (scrapeMenuPageWithImages sample_web sample_url)) = []"
proof -
  have h1: "snd (fetchPageContent sample_web sample_url) = Inr (js ''Polevka 45 Kc'')"
    by (simp add: scraper_defs sample_defs)
  have h2: "findMenuImages sample_web (js ''Polevka 45 Kc'') sample_url = Inr []"
    by (simp add: sample_web_def)
  have h3: "hasMenuContent sample_web (extractTextContent sample_web (js ''Polevka 45 Kc'')) []"
    by (simp add: scraper_defs sample_defs)
  from menu_like_static_result_is_returned [OF h1 h2 h3] h1 h2 h3 show ?thesis
    by blast
qed

text \<open>
  C4. When the static fetch throws, whatever the error, the rendered fetcher is invoked,
  once, and the scrape fails exactly when that rendered attempt (fetch and extraction)
  throws too; otherwise the result of the rendered attempt is returned. The failure
  carries the message of the static error.
\<close>

theorem static_failure_escalates_to_rendered:
  assumes "snd (fetchPageContent w url) = Inl error"
  shows "rendered_fetches (fst (scrapeMenuPageWithImages w url)) = [url] \<and>
         snd (scrapeMenuPageWithImages w url) =
           (case snd (renderedAttempt w 0 url) of
              Inr result \<Rightarrow> Inr result
            | Inl e \<Rightarrow> Inl (js ''Failed to fetch page: '' @ error))"
  by (simp add: scrapeMenuPageWithImages_def static_failure [OF assms] catch_block_eq
      rendered_fetches_simps)

theorem static_failure_escalates_to_rendered_witness:
  "snd (fetchPageContent sample_web (js ''https://slow.example/'')) =
     Inl (js ''Request timeout: The server took too long to respond'') \<and>
   rendered_fetches (fst (scrapeMenuPageWithImages sample_web (js ''https://slow.example/''))) =
     [js ''https://slow.example/''] \<and>
   snd (scrapeMenuPageWithImages sample_web (js ''https://slow.example/'')) = Inr (js ''Rendered page'', [])"
proof -
  have h: "snd (fetchPageContent sample_web (js ''https://slow.example/'')) =
     Inl (js ''Request timeout: The server took too long to respond'')"
    by (simp add: scraper_defs sample_defs)
  have r: "snd (renderedAttempt sample_web 0 (js ''https://slow.example/'')) = Inr (js ''Rendered page'', [])"
    by (simp add: scraper_defs sample_defs)
  from static_failure_escalates_to_rendered [OF h] h r show ?thesis
    by simp
qed

text \<open>
  C9. \<open>scrapeMenuPageWithImages\<close> equals the function in which the rendered fetch is decided
  by the negation of \<open>hasMenuContent\<close> alone, and the condition under which the last
  \<open>return\<close> would be reached never holds.
\<close>

lemma if_dead_branch:
  "(if h then a else if m \<or> \<not> h then b else a) = (if \<not> h then b else a)"
  by simp

theorem mentionsMenuButNoItems_is_dead:
  "scrapeMenuPageWithImages w url = scrapeMenuPageWithImages_simplified w url \<and>
   \<not> (\<not> hasMenuContent w t i \<and> \<not> (mentionsMenuButNoItems w t i \<or> \<not> hasMenuContent w t i))"
proof
  show "scrapeMenuPageWithImages w url = scrapeMenuPageWithImages_simplified w url"
    unfolding scrapeMenuPageWithImages_def scrapeMenuPageWithImages_simplified_def if_dead_branch
    by (rule refl)
  show "\<not> (\<not> hasMenuContent w t i \<and> \<not> (mentionsMenuButNoItems w t i \<or> \<not> hasMenuContent w t i))"
    by blast
qed

theorem mentionsMenuButNoItems_is_dead_witness:
  "scrapeMenuPageWithImages_simplified sample_web (js ''https://example.com/spa'') =
     ([StaticGet (js ''https://example.com/spa''), RenderedFetch (js ''https://example.com/spa'')],
      Inr (js ''Rendered page'', []))"
proof -
  have "scrapeMenuPageWithImages sample_web (js ''https://example.com/spa'') =
     ([StaticGet (js ''https://example.com/spa''), RenderedFetch (js ''https://example.com/spa'')],
      Inr (js ''Rendered page'', []))"
    by (simp add: scraper_defs sample_defs)
  with mentionsMenuButNoItems_is_dead [of sample_web "js ''https://example.com/spa''"]
  show ?thesis by simp
qed

text \<open>
  What the code does after a static result without menu content. When the rendered attempt
  succeeds, it is made once and its result is returned as it is. When it throws, the
  \<open>catch\<close> block written for a failure of the static fetch catches the error and runs the
  rendered attempt a second time.
\<close>

lemma not_menu_like_rendered_once_on_success:
  assumes "snd (fetchPageContent w url) = Inr html"
    and "findMenuImages w html url = Inr images"
    and "\<not> hasMenuContent w (extractTextContent w html) images"
    and "snd (renderedAttempt w 0 url) = Inr result"
  shows "scrapeMenuPageWithImages w url =
           ([StaticGet (removeHashFromUrl w url), RenderedFetch url], Inr result)"
  using assms(2,3)
  by (simp add: scrapeMenuPageWithImages_def static_success [OF assms(1)] rendered_outcome [OF assms(4)])

lemma not_menu_like_rendered_twice_on_failure:
  assumes "snd (fetchPageContent w url) = Inr html"
    and "findMenuImages w html url = Inr images"
    and "\<not> hasMenuContent w (extractTextContent w html) images"
    and "snd (renderedAttempt w 0 url) = Inl e"
  shows "rendered_fetches (fst (scrapeMenuPageWithImages w url)) = [url, url]"
  using assms(2,3)
  by (simp add: scrapeMenuPageWithImages_def static_success [OF assms(1)] rendered_outcome [OF assms(4)]
      catch_block_eq rendered_fetches_simps)

text \<open>
  C2. The static fetch of \<open>/about\<close> returns a page whose text has none of the markers and no
  image, and the browser fails on it: the rendered fetcher is invoked twice, not once, and
  the scrape throws.
\<close>

theorem rendered_fetcher_invoked_twice_when_it_throws:
  "snd (fetchPageContent sample_web (js ''https://example.com/about'')) = Inr (js ''Welcome'') \<and>
   findMenuImages sample_web (js ''Welcome'') (js ''https://example.com/about'') = Inr [] \<and>
   \<not> hasMenuContent sample_web (extractTextContent sample_web (js ''Welcome'')) [] \<and>
   rendered_fetches (fst (scrapeMenuPageWithImages sample_web (js ''https://example.com/about''))) =
     [js ''https://example.com/about'', js ''https://example.com/about''] \<and>
   snd (scrapeMenuPageWithImages sample_web (js ''https://example.com/about'')) =
     Inl (js ''Failed to fetch page: Failed to fetch page with Puppeteer: Navigation timeout of 20000 ms exceeded'')"
  by (simp add: scraper_defs sample_defs)

section \<open>Properties of the menu service\<close>

lemma scrape_trace_cases:
  "fst (scrapeMenuPageWithImages w url) \<in>
     {[StaticGet (removeHashFromUrl w url)],
      [StaticGet (removeHashFromUrl w url), RenderedFetch url],
      [StaticGet (removeHashFromUrl w url), RenderedFetch url, RenderedFetch url]}"
proof (cases "fetchPageContent w url")
  case (Pair tr r)
  with fetchPageContent_trace [of w url] have tr: "tr = [StaticGet (removeHashFromUrl w url)]"
    by simp
  obtain tr' r' where ra: "renderedAttempt w 0 url = (tr', r')"
    by (cases "renderedAttempt w 0 url")
  with renderedAttempt_trace [of w 0 url] have tr': "tr' = [RenderedFetch url]"
    by simp
  show ?thesis
    unfolding scrapeMenuPageWithImages_def Pair tr ra tr'
    by (auto simp add: catch_block_eq Let_def split: sum.splits)
qed

lemma scrape_static_gets:
  "static_gets (fst (scrapeMenuPageWithImages w url)) = [removeHashFromUrl w url]"
  using scrape_trace_cases [of w url] by (auto simp add: static_gets_simps)

lemma scrape_rendered_fetches:
  "set (rendered_fetches (fst (scrapeMenuPageWithImages w url))) \<subseteq> {url}"
  using scrape_trace_cases [of w url] by (auto simp add: rendered_fetches_simps)

lemma removeHash_same:
  "same_up_to_fragment w u u' \<Longrightarrow> removeHashFromUrl w u = removeHashFromUrl w u'"
  by (auto simp add: same_up_to_fragment_def removeHashFromUrl_def URL_toString_def URL_clear_hash_def
      split: option.splits)

lemma fetch_events_simps:
  "fetch_events [] = []"
  "fetch_events (CacheGet u d # tr) = fetch_events tr"
  "fetch_events (CacheSet u d m # tr) = fetch_events tr"
  "fetch_events (ExtractMenu a b c e f # tr) = fetch_events tr"
  "fetch_events (Fetch x # tr) = x # fetch_events tr"
  "fetch_events (tr @ tr') = fetch_events tr @ fetch_events tr'"
  by (simp_all add: fetch_events_def)

lemma fetch_events_map_Fetch: "fetch_events (map Fetch tr) = tr"
  by (induction tr) (simp_all add: fetch_events_simps)

lemma cache_keys_simps:
  "cache_keys [] = []"
  "cache_keys (CacheGet u d # tr) = (u, d) # cache_keys tr"
  "cache_keys (CacheSet u d m # tr) = (u, d) # cache_keys tr"
  "cache_keys (ExtractMenu a b c e f # tr) = cache_keys tr"
  "cache_keys (Fetch x # tr) = cache_keys tr"
  "cache_keys (tr @ tr') = cache_keys tr @ cache_keys tr'"
  by (simp_all add: cache_keys_def)

lemma cache_keys_map_Fetch: "cache_keys (map Fetch tr) = []"
  by (induction tr) (simp_all add: cache_keys_simps)

lemma summarize_fetch_events:
  "fetch_events (fst (snd (summarizeMenu sv db io url date)))
     \<in> {[], fst (scrapeMenuPageWithImages (the_web sv) url)}"
  by (auto simp add: summarizeMenu_def Let_def fetch_events_simps fetch_events_map_Fetch
      split: prod.splits option.splits sum.splits)

lemma summarize_cache_keys:
  "set (cache_keys (fst (snd (summarizeMenu sv db io url date)))) = {(url, targetDate (clock_date io) date)}"
  by (auto simp add: summarizeMenu_def Let_def cache_keys_simps cache_keys_map_Fetch
      split: prod.splits option.splits sum.splits)

text \<open>The examples, evaluated.\<close>

lemma iso_sample: "Date_toISOString 1761172200000 = js ''2025-10-22T22:30:00.000Z''"
  by (simp add: Date_toISOString_def civil_from_days_def zero_pad_def decimal.simps js_def Let_def
      numeral_2_eq_2 cong: let_weak_cong)

lemma iso_sample_local: "Date_toISOString (1761172200000 + 7200000) = js ''2025-10-23T00:30:00.000Z''"
  by (simp add: Date_toISOString_def civil_from_days_def zero_pad_def decimal.simps js_def Let_def
      numeral_2_eq_2 cong: let_weak_cong)

lemma current_date_sample: "getCurrentDate 1761172200000 = js ''2025-10-22''"
  by (simp add: getCurrentDate_def iso_sample) (simp add: js_def)

lemma local_date_sample: "local_calendar_date 7200000 1761172200000 = js ''2025-10-23''"
  by (simp only: local_calendar_date_def iso_sample_local) (simp add: js_def)

lemma scrape_menu: "scrapeMenuPageWithImages sample_web sample_url = ([StaticGet sample_url], Inr (js ''Polevka 45 Kc'', []))"
  by (simp add: scraper_defs sample_defs)

lemma scrape_fragment: "scrapeMenuPageWithImages sample_web fragment_url = ([StaticGet sample_url], Inr (js ''Polevka 45 Kc'', []))"
  by (simp add: scraper_defs sample_defs)

lemma wednesday: "getDayOfWeek sample_runtime sample_date = Some (js ''st'' @ [345] @ js ''eda'')"
  by (simp add: getDayOfWeek_def days_def sample_runtime_def sample_date_def js_def)

lemma get_hit: "CacheService_get sample_runtime sample_db False False 1761100000100 sample_url sample_date = (sample_db, Some (js ''{}''))"
  by (simp add: CacheService_get_def sample_db_select sample_row_def sample_parse js_def)

lemma fragment_url_neq: "fragment_url \<noteq> sample_url"
  by (simp add: fragment_url_def sample_url_def js_eq_iff)

lemma get_miss: "CacheService_get sample_runtime sample_db False False 1761100000100 fragment_url sample_date = (sample_db, None)"
  by (simp add: CacheService_get_def sql_select_def sample_db_rows has_key_def sample_row_def fragment_url_neq [symmetric])

lemma trim_sample: "trim (js ''Polevka 45 Kc'') = js ''Polevka 45 Kc''"
  by (simp add: trim_def isSpace_def js_def)

lemma sample_date_nonempty: "sample_date \<noteq> []" "js ''Polevka 45 Kc'' \<noteq> []"
  by (simp_all add: sample_date_def js_def)

lemma get_empty: "CacheService_get rt empty_database False de now u d = (empty_database, None)"
  by (simp add: CacheService_get_def sql_select_def empty_database_def)

lemma run_hit:
  "summarizeMenu sample_services sample_db sample_io sample_url (Some sample_date) =
     (sample_db, [CacheGet sample_url sample_date], [], Inr (js ''{}''))"
  by (simp add: summarizeMenu_def targetDate_def sample_services_def sample_io_def get_hit
      sample_date_nonempty Let_def cong: let_weak_cong)

lemma run_miss:
  "summarizeMenu sample_services sample_db sample_io fragment_url (Some sample_date) =
     (sample_db,
      [CacheGet fragment_url sample_date,
       Fetch (StaticGet sample_url),
       ExtractMenu (js ''Polevka 45 Kc'') fragment_url sample_date (Some (js ''st'' @ [345] @ js ''eda'')) None,
       CacheSet fragment_url sample_date (js ''{}'')],
      [CacheService_set sample_runtime 1761100000200 fragment_url sample_date (js ''{}'')],
      Inr (js ''{}''))"
  by (simp add: summarizeMenu_def targetDate_def sample_services_def sample_io_def get_miss
      scrape_fragment trim_sample wednesday sample_date_nonempty Let_def cong: let_weak_cong)

lemma run_after_midnight:
  "summarizeMenu sample_services empty_database after_midnight_io sample_url None =
     (empty_database,
      [CacheGet sample_url sample_date,
       Fetch (StaticGet sample_url),
       ExtractMenu (js ''Polevka 45 Kc'') sample_url sample_date (Some (js ''st'' @ [345] @ js ''eda'')) None,
       CacheSet sample_url sample_date (js ''{}'')],
      [CacheService_set sample_runtime 1761172200100 sample_url sample_date (js ''{}'')],
      Inr (js ''{}''))"
proof -
  have d: "getCurrentDate 1761172200000 = sample_date"
    by (simp add: current_date_sample sample_date_def)
  show ?thesis
    by (simp add: summarizeMenu_def targetDate_def sample_services_def after_midnight_io_def d get_empty
      scrape_menu trim_sample wednesday sample_date_nonempty Let_def cong: let_weak_cong)
qed

lemma scrape_spa:
  "scrapeMenuPageWithImages sample_web (js ''https://example.com/spa#lunch'') =
     ([StaticGet (js ''https://example.com/spa''), RenderedFetch (js ''https://example.com/spa#lunch'')],
      Inr (js ''Rendered page'', []))"
  "scrapeMenuPageWithImages sample_web (js ''https://example.com/spa'') =
     ([StaticGet (js ''https://example.com/spa''), RenderedFetch (js ''https://example.com/spa'')],
      Inr (js ''Rendered page'', []))"
  by (simp_all add: scraper_defs sample_defs)

lemma same_fragment_sample: "same_up_to_fragment sample_web fragment_url sample_url"
  by (simp add: same_up_to_fragment_def sample_web_def fragment_url_def sample_url_def js_def)

text \<open>
  C1, as the code has it. For two URL strings that differ only by a fragment, the static
  fetch sends the same target, the URL without its fragment, once per scrape. The
  rendered fetcher is given the URL of the caller as it is, and every cache operation of
  \<open>summarizeMenu\<close> uses the URL of the caller as it is in its key; the requests of a call
  are those of its scrape, or none on a cache hit.
\<close>

theorem fragment_is_removed_for_the_static_fetch_only:
  assumes "same_up_to_fragment (the_web sv) u u'"
  shows "static_gets (fst (scrapeMenuPageWithImages (the_web sv) u)) = [removeHashFromUrl (the_web sv) u] \<and>
         static_gets (fst (scrapeMenuPageWithImages (the_web sv) u')) = [removeHashFromUrl (the_web sv) u] \<and>
         set (rendered_fetches (fst (scrapeMenuPageWithImages (the_web sv) u))) \<subseteq> {u} \<and>
         set (cache_keys (fst (snd (summarizeMenu sv db io u date)))) = {(u, targetDate (clock_date io) date)} \<and>
         fetch_events (fst (snd (summarizeMenu sv db io u date)))
           \<in> {[], fst (scrapeMenuPageWithImages (the_web sv) u)}"
proof -
  have a: "static_gets (fst (scrapeMenuPageWithImages (the_web sv) u)) = [removeHashFromUrl (the_web sv) u]"
    by (rule scrape_static_gets)
  have b: "static_gets (fst (scrapeMenuPageWithImages (the_web sv) u')) = [removeHashFromUrl (the_web sv) u]"
    by (simp add: scrape_static_gets removeHash_same [OF assms])
  note c = scrape_rendered_fetches [of "the_web sv" u]
  note d = summarize_cache_keys [of sv db io u date]
  note e = summarize_fetch_events [of sv db io u date]
  from a b c d e show ?thesis by blast
qed

theorem fragment_is_removed_for_the_static_fetch_only_witness:
  "same_up_to_fragment (the_web sample_services) fragment_url sample_url \<and>
   static_gets (fst (scrapeMenuPageWithImages (the_web sample_services) fragment_url)) = [sample_url] \<and>
   static_gets (fst (scrapeMenuPageWithImages (the_web sample_services) sample_url)) = [sample_url] \<and>
   set (cache_keys (fst (snd (summarizeMenu sample_services sample_db sample_io fragment_url (Some sample_date)))))
     = {(fragment_url, sample_date)}"
proof -
  have h: "same_up_to_fragment (the_web sample_services) fragment_url sample_url"
    by (simp add: sample_services_def same_fragment_sample)
  have r: "removeHashFromUrl (the_web sample_services) fragment_url = sample_url"
    by (simp add: removeHashFromUrl_def URL_toString_def URL_clear_hash_def sample_services_def
        sample_web_def fragment_url_def sample_url_def js_def)
  have t: "targetDate (clock_date sample_io) (Some sample_date) = sample_date"
    by (simp add: targetDate_def sample_date_nonempty)
  from fragment_is_removed_for_the_static_fetch_only [OF h, of sample_db sample_io "Some sample_date"] h r t
  show ?thesis by simp
qed

text \<open>
  C1, as it is stated, fails. The table holds an unexpired row for
  \<open>https://example.com/menu\<close> on 2025-10-22. Resolving that URL is a cache hit with no
  request; resolving \<open>https://example.com/menu#denni-menu\<close> for the same date looks up and
  writes a different key, misses, and fetches. The rendered fetcher is given the fragment
  too.
\<close>

theorem fragment_variant_misses_the_cache:
  "same_up_to_fragment sample_web fragment_url sample_url \<and>
   summarizeMenu sample_services sample_db sample_io sample_url (Some sample_date) =
     (sample_db, [CacheGet sample_url sample_date], [], Inr (js ''{}'')) \<and>
   cache_keys (fst (snd (summarizeMenu sample_services sample_db sample_io fragment_url (Some sample_date)))) =
     [(fragment_url, sample_date), (fragment_url, sample_date)] \<and>
   (fragment_url, sample_date) \<noteq> (sample_url, sample_date) \<and>
   fetch_events (fst (snd (summarizeMenu sample_services sample_db sample_io fragment_url (Some sample_date)))) =
     [StaticGet sample_url] \<and>
   rendered_fetches (fst (scrapeMenuPageWithImages sample_web (js ''https://example.com/spa#lunch''))) =
     [js ''https://example.com/spa#lunch''] \<and>
   rendered_fetches (fst (scrapeMenuPageWithImages sample_web (js ''https://example.com/spa''))) =
     [js ''https://example.com/spa''] \<and>
   js ''https://example.com/spa#lunch'' \<noteq> js ''https://example.com/spa''"
  by (simp add: same_fragment_sample run_hit run_miss scrape_spa cache_keys_simps fetch_events_simps
      rendered_fetches_simps fragment_url_neq js_eq_iff)

text \<open>
  C8. With the date absent, the date of the cache key and of the extraction is the UTC
  calendar date of the instant, the part of \<open>toISOString()\<close> before the \<open>T\<close>. At 00:30 on
  2025-10-23 in a process at UTC+2 the local calendar date is 2025-10-23 and the date used
  is 2025-10-22; the INSERT queued for it carries the expiry 1761170400000, the local
  midnight that has already passed.
\<close>

theorem absent_date_is_the_utc_date:
  "targetDate 1761172200000 None = js ''2025-10-22'' \<and>
   local_calendar_date 7200000 1761172200000 = js ''2025-10-23'' \<and>
   fst (snd (summarizeMenu sample_services empty_database after_midnight_io sample_url None)) =
     [CacheGet sample_url (js ''2025-10-22''),
      Fetch (StaticGet sample_url),
      ExtractMenu (js ''Polevka 45 Kc'') sample_url (js ''2025-10-22'') (Some (js ''st'' @ [345] @ js ''eda'')) None,
      CacheSet sample_url (js ''2025-10-22'') (js ''{}'')] \<and>
   fst (snd (snd (summarizeMenu sample_services empty_database after_midnight_io sample_url None))) =
     [InsertOrReplace sample_url (js ''2025-10-22'') (js ''{}'') 1761172200100 (Some 1761170400000)] \<and>
   clock_set after_midnight_io > 1761170400000"
proof -
  have clock: "clock_set after_midnight_io > 1761170400000"
    by (simp add: after_midnight_io_def)
  have e: "CacheService_set sample_runtime 1761172200100 sample_url sample_date (js ''{}'') =
      InsertOrReplace sample_url sample_date (js ''{}'') 1761172200100 (Some 1761170400000)"
    by (simp add: CacheService_set_def Let_def sample_expiry sample_stringify)
  note run = run_after_midnight [unfolded e, unfolded sample_date_def]
  from clock show ?thesis
    by (simp add: targetDate_def current_date_sample local_date_sample run)
qed

end
